theory Spec2Isabelle
  imports Main
begin

section \<open>Shared vocabulary\<close>

text \<open>
  The repository holds three variants of a self-restarting FastAPI service:
  \<^item> \<^verbatim>\<open>restart-1.py\<close>: in-process, restart at a wall-clock time (APScheduler date job),
    with a request gate (HTTP middleware);
  \<^item> \<^verbatim>\<open>restart-2.py\<close>: in-process, restart after a fixed interval (a sleeping thread);
  \<^item> \<^verbatim>\<open>restart-3-graceful+forced.py\<close>: an external watchdog that signals and relaunches.
  Names that occur in more than one file carry the file's number as a suffix.
\<close>

datatype signal = SIGTERM | SIGKILL

datatype py_error =
    NameError string
  | ProcessLookupError
  | OverflowError
  | ValueError
  | OtherException

subsection \<open>Aware datetimes\<close>

text \<open>
  An aware Python \<^verbatim>\<open>datetime\<close>. The date is kept as its ordinal day number, 1 for
  1 January of year 1 and 3652059 for 31 December 9999. \<open>utcoffset\<close> stands for the
  tzinfo, in microseconds east of UTC: \<^verbatim>\<open>datetime.now(timezone('Europe/London'))\<close>
  carries the offset in force at that moment, and \<^verbatim>\<open>replace\<close> and \<^verbatim>\<open>+ timedelta\<close> work
  on the wall-clock fields and keep the tzinfo of their operand.
\<close>

record datetime =
  day :: int
  hour :: int
  minute :: int
  second :: int
  microsecond :: int
  utcoffset :: int

text \<open>\<^verbatim>\<open>datetime.time(hour, minute)\<close>: the constructor admits only 0..23 and 0..59.\<close>

record dtime =
  time_hour :: int
  time_minute :: int

definition valid_dtime :: "dtime \<Rightarrow> bool" where
  "valid_dtime t = (0 \<le> time_hour t \<and> time_hour t < 24 \<and> 0 \<le> time_minute t \<and> time_minute t < 60)"

text \<open>
  The wall-clock fields as microseconds since day 0, and back: how
  \<^verbatim>\<open>datetime + timedelta\<close> normalises.
\<close>

definition to_us :: "datetime \<Rightarrow> int" where
  "to_us d = (((day d * 24 + hour d) * 60 + minute d) * 60 + second d) * 1000000 + microsecond d"

text \<open>The instant of a datetime: microseconds of UTC since day 0.\<close>

definition utc_us :: "datetime \<Rightarrow> int" where
  "utc_us d = to_us d - utcoffset d"

definition of_us :: "int \<Rightarrow> int \<Rightarrow> datetime" where
  "of_us n off =
     \<lparr>day = n div 86400000000,
      hour = n div 3600000000 mod 24,
      minute = n div 60000000 mod 60,
      second = n div 1000000 mod 60,
      microsecond = n mod 1000000,
      utcoffset = off\<rparr>"

text \<open>
  Python's \<^verbatim>\<open><\<close> and \<^verbatim>\<open>>=\<close> on aware datetimes: with the same tzinfo the fields are
  compared, first to last; otherwise both sides are first brought to UTC.
\<close>

definition fields_less :: "datetime \<Rightarrow> datetime \<Rightarrow> bool" where
  "fields_less a b =
     (day a < day b \<or> (day a = day b \<and>
       (hour a < hour b \<or> (hour a = hour b \<and>
         (minute a < minute b \<or> (minute a = minute b \<and>
           (second a < second b \<or> (second a = second b \<and>
             microsecond a < microsecond b))))))))"

definition dt_less :: "datetime \<Rightarrow> datetime \<Rightarrow> bool" where
  "dt_less a b =
     (if utcoffset a = utcoffset b then fields_less a b
      else utc_us a < utc_us b)"

definition dt_ge :: "datetime \<Rightarrow> datetime \<Rightarrow> bool" where
  "dt_ge a b = (\<not> dt_less a b)"

text \<open>
  A time zone gives the offset in force at each instant, the instant counted in
  microseconds of UTC since day 0. \<^verbatim>\<open>datetime.now(tz)\<close> at such an instant:
\<close>

type_synonym zone = "int \<Rightarrow> int"

definition datetime_now :: "zone \<Rightarrow> int \<Rightarrow> datetime" where
  "datetime_now tz u = of_us (u + tz u) (tz u)"

text \<open>A date outside years 1 to 9999 does not exist: the operation raises.\<close>

definition max_ordinal :: int where
  "max_ordinal = 3652059"

definition checked :: "datetime \<Rightarrow> py_error + datetime" where
  "checked d = (if 1 \<le> day d \<and> day d \<le> max_ordinal then Inr d else Inl OverflowError)"

text \<open>
  pytz's \<^verbatim>\<open>normalize\<close> keeps the instant of a datetime and gives it the offset the
  zone has there: it takes the offset off the fields, and puts the zone's offset on.
\<close>

definition tz_normalize :: "zone \<Rightarrow> datetime \<Rightarrow> py_error + datetime" where
  "tz_normalize tz d =
     (case checked (of_us (utc_us d) 0) of
        Inl e \<Rightarrow> Inl e
      | Inr _ \<Rightarrow> checked (datetime_now tz (utc_us d)))"

text \<open>
  Durations are microseconds. \<^verbatim>\<open>timedelta(days=1)\<close>, and \<^verbatim>\<open>timedelta(hours=n)\<close>, which
  raises when it comes to more than 999999999 days either way.
\<close>

definition one_day :: int where
  "one_day = 86400000000"

definition timedelta_hours :: "int \<Rightarrow> py_error + int" where
  "timedelta_hours n =
     (if - 999999999 \<le> n div 24 \<and> n div 24 \<le> 999999999 then Inr (n * 3600000000)
      else Inl OverflowError)"

definition dt_add :: "datetime \<Rightarrow> int \<Rightarrow> py_error + datetime" where
  "dt_add d delta = checked (of_us (to_us d + delta) (utcoffset d))"

text \<open>
  The difference of two aware datetimes: of their instants. (With one tzinfo on both
  sides Python subtracts the fields, which comes to the same.)
\<close>

definition dt_sub :: "datetime \<Rightarrow> datetime \<Rightarrow> int" where
  "dt_sub a b = utc_us a - utc_us b"

subsection \<open>HTTP requests and responses\<close>

datatype http_method = GET | HEAD | POST | OtherMethod

text \<open>
  \<open>interval_hours\<close> is the query parameter of \<^verbatim>\<open>/admin/configure\<close> after FastAPI's
  validation as \<^verbatim>\<open>int\<close>: \<open>None\<close> when it is missing or not an integer.
\<close>

record request =
  req_method :: http_method
  req_path :: string
  interval_hours :: "int option"

datatype body =
    Unavailable
  | RootBody1 int datetime "datetime option"
  | StatusBody1 int int datetime "datetime option" "int option"
  | RootBody2 int int int
  | StatusBody2 int int int int int
  | Restarting int
  | ErrorBody string
  | Configured int int
  | InternalServerError
  | FrameworkBody

record response =
  status_code :: nat
  content :: body

text \<open>A handler that returns a dict: FastAPI answers with its default status 200.\<close>

definition ok :: "body \<Rightarrow> response" where
  "ok b = \<lparr>status_code = 200, content = b\<rparr>"

text \<open>An exception that leaves a handler: the server answers 500.\<close>

definition server_error :: response where
  "server_error = \<lparr>status_code = 500, content = InternalServerError\<rparr>"

section \<open>restart-1.py: restart at a wall-clock time\<close>

text \<open>
  The names bound in the module's namespace: the imports of lines 1--9 and the
  module-level assignments and definitions. Line 4 binds \<^verbatim>\<open>datetime\<close>, \<^verbatim>\<open>timedelta\<close> and
  \<^verbatim>\<open>dtime\<close> (\<^verbatim>\<open>time as dtime\<close>).
\<close>

definition module_globals1 :: "string list" where
  "module_globals1 =
     [''os'', ''signal'', ''logging'', ''datetime'', ''timedelta'', ''dtime'', ''timezone'',
      ''uvicorn'', ''FastAPI'', ''BackgroundTasks'', ''Request'', ''JSONResponse'',
      ''BackgroundScheduler'', ''logger'', ''app'', ''last_restart_time'',
      ''default_restart_time'', ''should_restart'', ''restart_in_progress'', ''scheduler'',
      ''perform_restart'', ''schedule_restart'', ''check_restart_status'', ''startup_event'',
      ''shutdown_event'', ''root'', ''status'', ''manual_restart'', ''configure_restart'']"

text \<open>
  \<^verbatim>\<open>time.sleep(n)\<close> with an integer \<open>n\<close>. The name \<^verbatim>\<open>time\<close> is looked up in the module
  namespace (it is neither a local nor a builtin); an unbound name raises
  \<^verbatim>\<open>NameError\<close>. The call itself (CPython, on a POSIX system) turns the seconds into a
  signed 64-bit count of nanoseconds and raises \<^verbatim>\<open>OverflowError\<close> when they do not fit,
  that is beyond 9223372036 seconds; a negative length raises \<^verbatim>\<open>ValueError\<close>.
\<close>

definition time_sleep :: "string list \<Rightarrow> int \<Rightarrow> py_error + unit" where
  "time_sleep globals n =
     (if ''time'' \<notin> set globals then Inl (NameError ''time'')
      else if n < - 9223372036 \<or> 9223372036 < n then Inl OverflowError
      else if n < 0 then Inl ValueError
      else Inr ())"

text \<open>
  The scheduler's job store. Every job runs \<^verbatim>\<open>perform_restart\<close>. A date trigger holds
  its run date, an interval trigger its number of hours.
\<close>

datatype trigger = DateTrigger datetime | IntervalTrigger nat

record job =
  job_trigger :: trigger
  next_run_time :: datetime

datatype task = DelayedRestart

text \<open>
  The module's globals, the scheduler (its time zone, whether its thread runs, its
  jobs), the queue of Starlette background tasks, and the \<^verbatim>\<open>os.kill\<close> calls made so far
  (oldest first). \<open>restart_interval_hours\<close> is unbound until \<^verbatim>\<open>configure_restart\<close>
  assigns it.
\<close>

record app1 =
  process_id :: int
  last_restart_time :: datetime
  default_restart_time :: dtime
  should_restart :: bool
  restart_in_progress :: bool
  restart_interval_hours :: "int option"
  scheduler_timezone :: zone
  scheduler_running :: bool
  jobs :: "job list"
  background :: "task list"
  sent :: "(int \<times> signal) list"

definition os_kill1 :: "int \<Rightarrow> signal \<Rightarrow> app1 \<Rightarrow> app1" where
  "os_kill1 p sig st = st\<lparr>sent := sent st @ [(p, sig)]\<rparr>"

text \<open>
  \<^verbatim>\<open>perform_restart\<close> (lines 29--48). \<open>now\<close> is what \<^verbatim>\<open>datetime.now\<close> returns on line 38.
  The result is the exception that leaves the function, if any, and the state at that
  moment.
\<close>

definition perform_restart :: "datetime \<Rightarrow> app1 \<Rightarrow> py_error option \<times> app1" where
  "perform_restart now st =
     (let pid = process_id st;
          st1 = st\<lparr>last_restart_time := now\<rparr>;
          st2 = st1\<lparr>restart_in_progress := True\<rparr>;
          st3 = os_kill1 pid SIGTERM st2
      in case time_sleep module_globals1 30 of
           Inl e \<Rightarrow> (Some e, st3)
         | Inr _ \<Rightarrow> (None, os_kill1 pid SIGKILL st3))"

text \<open>
  \<^verbatim>\<open>schedule_restart\<close> (lines 50--57): the run date of lines 53--55, then the job added.
  The date trigger takes the aware run date as it is given. As for \<^verbatim>\<open>perform_restart\<close>,
  the result is the exception that leaves the function, if any, and the state then.
\<close>

definition next_restart_at :: "dtime \<Rightarrow> datetime \<Rightarrow> py_error + datetime" where
  "next_restart_at t now =
     (let next_restart = now\<lparr>hour := time_hour t, minute := time_minute t,
                             second := 0, microsecond := 0\<rparr>
      in if dt_ge now next_restart then dt_add next_restart one_day
         else Inr next_restart)"

definition schedule_restart :: "datetime \<Rightarrow> app1 \<Rightarrow> py_error option \<times> app1" where
  "schedule_restart now st =
     (case next_restart_at (default_restart_time st) now of
        Inl e \<Rightarrow> (Some e, st)
      | Inr next_restart \<Rightarrow>
          (None, st\<lparr>jobs := jobs st @ [\<lparr>job_trigger = DateTrigger next_restart,
                                        next_run_time = next_restart\<rparr>]\<rparr>))"

text \<open>The middleware \<^verbatim>\<open>check_restart_status\<close> (lines 59--68).\<close>

definition unavailable :: response where
  "unavailable = \<lparr>status_code = 503, content = Unavailable\<rparr>"

definition check_restart_status ::
  "(request \<Rightarrow> app1 \<Rightarrow> response \<times> app1) \<Rightarrow> request \<Rightarrow> app1 \<Rightarrow> response \<times> app1" where
  "check_restart_status call_next req st =
     (if restart_in_progress st then (unavailable, st) else call_next req st)"

text \<open>\<^verbatim>\<open>startup_event\<close> and \<^verbatim>\<open>shutdown_event\<close> (lines 70--91).\<close>

definition startup_event1 :: "datetime \<Rightarrow> app1 \<Rightarrow> py_error option \<times> app1" where
  "startup_event1 now st = schedule_restart now (st\<lparr>scheduler_running := True\<rparr>)"

definition shutdown_event1 :: "app1 \<Rightarrow> app1" where
  "shutdown_event1 st = (st\<lparr>should_restart := False\<rparr>)\<lparr>scheduler_running := False\<rparr>"

text \<open>The route handlers (lines 93--157).\<close>

definition first_next_run :: "app1 \<Rightarrow> datetime option" where
  "first_next_run st = (case jobs st of [] \<Rightarrow> None | j # _ \<Rightarrow> Some (next_run_time j))"

definition root1 :: "app1 \<Rightarrow> response \<times> app1" where
  "root1 st = (ok (RootBody1 (process_id st) (last_restart_time st) (first_next_run st)), st)"

text \<open>
  The two durations of the status body are kept in microseconds (the source divides
  them into float seconds and hours).
\<close>

definition status1 :: "datetime \<Rightarrow> app1 \<Rightarrow> response \<times> app1" where
  "status1 current_time st =
     (let next_restart = first_next_run st
      in (ok (StatusBody1 (process_id st)
                (dt_sub current_time (last_restart_time st))
                (last_restart_time st)
                next_restart
                (map_option (\<lambda>n. dt_sub n current_time) next_restart)), st))"

definition manual_restart1 :: "app1 \<Rightarrow> response \<times> app1" where
  "manual_restart1 st =
     (let pid = process_id st;
          st1 = st\<lparr>restart_in_progress := True\<rparr>;
          st2 = st1\<lparr>background := background st1 @ [DelayedRestart]\<rparr>
      in (ok (Restarting pid), st2))"

text \<open>The closure \<^verbatim>\<open>delayed_restart\<close> of lines 130--134, run by Starlette after the response.\<close>

definition delayed_restart1 :: "app1 \<Rightarrow> py_error option \<times> app1" where
  "delayed_restart1 st =
     (let pid = process_id st
      in case time_sleep module_globals1 1 of
           Inl e \<Rightarrow> (Some e, st)
         | Inr _ \<Rightarrow>
            (let st1 = os_kill1 pid SIGTERM st
             in case time_sleep module_globals1 30 of
                  Inl e \<Rightarrow> (Some e, st1)
                | Inr _ \<Rightarrow> (None, os_kill1 pid SIGKILL st1)))"

text \<open>
  \<^verbatim>\<open>job.reschedule('interval', hours=h)\<close> at \<open>now\<close>. APScheduler builds the interval
  trigger, whose start date is \<open>now\<close> plus the interval, and sets the job's next run
  time to the trigger's first fire time: that start date, normalised in the
  scheduler's zone. Either addition can raise; the job is then as it was.
\<close>

definition reschedule :: "zone \<Rightarrow> datetime \<Rightarrow> int \<Rightarrow> job \<Rightarrow> py_error + job" where
  "reschedule tz now h j =
     (case timedelta_hours h of
        Inl e \<Rightarrow> Inl e
      | Inr interval \<Rightarrow>
          (case dt_add now interval of
             Inl e \<Rightarrow> Inl e
           | Inr start_date \<Rightarrow>
               (case tz_normalize tz start_date of
                  Inl e \<Rightarrow> Inl e
                | Inr first \<Rightarrow>
                    Inr (j\<lparr>job_trigger := IntervalTrigger (nat h), next_run_time := first\<rparr>))))"

text \<open>The loop of lines 151--152: it stops at the first job whose rescheduling raises.\<close>

fun reschedule_jobs :: "zone \<Rightarrow> datetime \<Rightarrow> int \<Rightarrow> job list \<Rightarrow> py_error option \<times> job list" where
  "reschedule_jobs tz now h [] = (None, [])"
| "reschedule_jobs tz now h (j # js) =
     (case reschedule tz now h j of
        Inl e \<Rightarrow> (Some e, j # js)
      | Inr j' \<Rightarrow> (let (e, js') = reschedule_jobs tz now h js in (e, j' # js')))"

definition configure_restart1 :: "datetime \<Rightarrow> int \<Rightarrow> app1 \<Rightarrow> response \<times> app1" where
  "configure_restart1 now interval st =
     (if interval < 1 then (ok (ErrorBody ''Interval must be at least 1 hour''), st)
      else
        (let st1 = st\<lparr>restart_interval_hours := Some interval\<rparr>;
             (e, js) = reschedule_jobs (scheduler_timezone st1) now interval (jobs st1);
             st2 = st1\<lparr>jobs := js\<rparr>
         in case e of
              Some _ \<Rightarrow> (server_error, st2)
            | None \<Rightarrow> (ok (Configured interval (interval * 3600)), st2)))"

text \<open>
  The routing table of the decorators on lines 93, 104, 119 and 139 (a FastAPI route
  declared with \<^verbatim>\<open>get\<close> answers GET alone). \<open>fw\<close> is the framework's own answer to a
  request that reaches no handler: no such path, wrong method, a missing or ill-typed
  \<open>interval_hours\<close>, FastAPI's documentation pages.
\<close>

definition call_next1 ::
  "(request \<Rightarrow> response) \<Rightarrow> datetime \<Rightarrow> request \<Rightarrow> app1 \<Rightarrow> response \<times> app1" where
  "call_next1 fw now req st =
     (if req_method req = GET \<and> req_path req = ''/'' then root1 st
      else if req_method req = GET \<and> req_path req = ''/status'' then status1 now st
      else if req_method req = POST \<and> req_path req = ''/admin/restart'' then manual_restart1 st
      else if req_method req = POST \<and> req_path req = ''/admin/configure'' then
        (case interval_hours req of
           Some i \<Rightarrow> configure_restart1 now i st
         | None \<Rightarrow> (fw req, st))
      else (fw req, st))"

definition handle1 ::
  "(request \<Rightarrow> response) \<Rightarrow> datetime \<Rightarrow> request \<Rightarrow> app1 \<Rightarrow> response \<times> app1" where
  "handle1 fw now req st = check_restart_status (call_next1 fw now) req st"

text \<open>
  Starlette's and FastAPI's own answers, with the four routes of this file and the
  documentation pages FastAPI adds to every application. On a path of the application:
  422 when \<open>interval_hours\<close> is missing or ill-typed, 405 for a method the route does not
  take. The documentation pages answer GET and HEAD. A path that matches no route but
  does so once its trailing slashes are taken off (or, without one, once a slash is
  added) is redirected with 307. Everything else is 404.
\<close>

definition app_paths :: "string list" where
  "app_paths = [''/'', ''/status'', ''/admin/restart'', ''/admin/configure'']"

definition doc_paths :: "string list" where
  "doc_paths = [''/openapi.json'', ''/docs'', ''/docs/oauth2-redirect'', ''/redoc'']"

definition rstrip_slash :: "string \<Rightarrow> string" where
  "rstrip_slash p = rev (dropWhile (\<lambda>c. c = CHR ''/'') (rev p))"

definition framework_default :: "request \<Rightarrow> response" where
  "framework_default req =
     (let p = req_path req;
          other = (if p \<noteq> [] \<and> last p = CHR ''/'' then rstrip_slash p else p @ ''/'')
      in if p \<in> set app_paths then
           (if p = ''/admin/configure'' \<and> req_method req = POST then
              \<lparr>status_code = 422, content = FrameworkBody\<rparr>
            else \<lparr>status_code = 405, content = FrameworkBody\<rparr>)
         else if p \<in> set doc_paths then
           (if req_method req = GET \<or> req_method req = HEAD then
              \<lparr>status_code = 200, content = FrameworkBody\<rparr>
            else \<lparr>status_code = 405, content = FrameworkBody\<rparr>)
         else if other \<in> set app_paths \<or> other \<in> set doc_paths then
           \<lparr>status_code = 307, content = FrameworkBody\<rparr>
         else \<lparr>status_code = 404, content = FrameworkBody\<rparr>)"

text \<open>
  The scheduler's thread looks at one job at \<open>now\<close> (APScheduler's defaults: jobs
  coalesce, the misfire grace is one second).
  \<^item> A job whose next run time is after \<open>now\<close> is left alone.
  \<^item> A date job that is due leaves the job store. It is run unless it is noticed more
    than a second late.
  \<^item> An interval job that is due has fire times one interval apart, each normalised in
    the scheduler's zone. The last of them not after \<open>now\<close> is the one to run, unless
    more than a second late; the one after it is the new next run time. A trigger of
    zero hours has an interval of one second.
  The result says whether the job is to be run and what is left of it. Computing a fire
  time can raise, before anything is run.
\<close>

definition misfire_grace :: int where
  "misfire_grace = 1000000"

definition interval_us :: "nat \<Rightarrow> py_error + int" where
  "interval_us h = (if h = 0 then Inr 1000000 else timedelta_hours (int h))"

definition fire_after :: "zone \<Rightarrow> datetime \<Rightarrow> int \<Rightarrow> py_error + datetime" where
  "fire_after tz d interval =
     (case dt_add d interval of Inl e \<Rightarrow> Inl e | Inr x \<Rightarrow> tz_normalize tz x)"

definition process_job :: "zone \<Rightarrow> datetime \<Rightarrow> job \<Rightarrow> py_error + bool \<times> job option" where
  "process_job tz now j =
     (if dt_less now (next_run_time j) then Inr (False, Some j)
      else
        (case job_trigger j of
           DateTrigger _ \<Rightarrow> Inr (dt_sub now (next_run_time j) \<le> misfire_grace, None)
         | IntervalTrigger h \<Rightarrow>
             (case interval_us h of
                Inl e \<Rightarrow> Inl e
              | Inr interval \<Rightarrow>
                  (let k = dt_sub now (next_run_time j) div interval
                   in case (if k = 0 then Inr (next_run_time j)
                            else fire_after tz (next_run_time j) (k * interval)) of
                        Inl e \<Rightarrow> Inl e
                      | Inr run_time \<Rightarrow>
                          (case fire_after tz run_time interval of
                             Inl e \<Rightarrow> Inl e
                           | Inr next \<Rightarrow>
                               Inr (dt_sub now run_time \<le> misfire_grace,
                                    Some (j\<lparr>next_run_time := next\<rparr>)))))))"

text \<open>
  The jobs in turn. The result is the exception that stops the round, if any, the
  number of jobs to run, and the job store after the round.
\<close>

fun process_jobs :: "zone \<Rightarrow> datetime \<Rightarrow> job list \<Rightarrow> py_error option \<times> nat \<times> job list" where
  "process_jobs tz now [] = (None, 0, [])"
| "process_jobs tz now (j # js) =
     (case process_job tz now j of
        Inl e \<Rightarrow> (Some e, 0, j # js)
      | Inr (run, left) \<Rightarrow>
          (let (e, n, js') = process_jobs tz now js
           in (e, (if run then Suc n else n),
               (case left of None \<Rightarrow> js' | Some j' \<Rightarrow> j' # js'))))"

text \<open>Each job to run calls \<^verbatim>\<open>perform_restart\<close>; what it raises is logged by the executor.\<close>

fun perform_restarts :: "nat \<Rightarrow> datetime \<Rightarrow> app1 \<Rightarrow> app1" where
  "perform_restarts 0 now st = st"
| "perform_restarts (Suc n) now st = perform_restarts n now (snd (perform_restart now st))"

text \<open>
  One round of the scheduler's thread at \<open>now\<close>. An exception that stops the round ends
  the thread.
\<close>

definition scheduler_fire :: "datetime \<Rightarrow> app1 \<Rightarrow> py_error option \<times> app1" where
  "scheduler_fire now st =
     (if scheduler_running st then
        (let (e, n, js) = process_jobs (scheduler_timezone st) now (jobs st);
             st1 = perform_restarts n now (st\<lparr>jobs := js\<rparr>)
         in case e of
              None \<Rightarrow> (None, st1)
            | Some x \<Rightarrow> (Some x, st1\<lparr>scheduler_running := False\<rparr>))
      else (None, st))"

text \<open>Starlette runs the oldest queued background task.\<close>

definition run_background1 :: "app1 \<Rightarrow> py_error option \<times> app1" where
  "run_background1 st =
     (case background st of
        [] \<Rightarrow> (None, st)
      | DelayedRestart # ts \<Rightarrow> delayed_restart1 (st\<lparr>background := ts\<rparr>))"

text \<open>What can happen to a running instance, and a run of such events.\<close>

datatype event1 =
    Http request
  | Fire
  | RunTask
  | Shutdown

fun step1 :: "(request \<Rightarrow> response) \<Rightarrow> datetime \<times> event1 \<Rightarrow> app1 \<Rightarrow> response option \<times> app1" where
  "step1 fw (now, Http req) st = (let (r, st') = handle1 fw now req st in (Some r, st'))"
| "step1 fw (now, Fire) st = (None, snd (scheduler_fire now st))"
| "step1 fw (now, RunTask) st = (None, snd (run_background1 st))"
| "step1 fw (now, Shutdown) st = (None, shutdown_event1 st)"

fun run1 :: "(request \<Rightarrow> response) \<Rightarrow> (datetime \<times> event1) list \<Rightarrow> app1 \<Rightarrow> response list \<times> app1" where
  "run1 fw [] st = ([], st)"
| "run1 fw (e # es) st =
     (let (r, st') = step1 fw e st; (rs, st'') = run1 fw es st'
      in ((case r of None \<Rightarrow> rs | Some x \<Rightarrow> x # rs), st''))"

text \<open>
  The state of a fresh process (lines 22--27), before \<^verbatim>\<open>startup_event\<close>; \<open>tz\<close> is the
  zone \<^verbatim>\<open>'Europe/London'\<close>.
\<close>

definition initial1 :: "zone \<Rightarrow> int \<Rightarrow> datetime \<Rightarrow> app1" where
  "initial1 tz p now =
     \<lparr>process_id = p,
      last_restart_time = now,
      default_restart_time = \<lparr>time_hour = 23, time_minute = 30\<rparr>,
      should_restart = True,
      restart_in_progress = False,
      restart_interval_hours = None,
      scheduler_timezone = tz,
      scheduler_running = False,
      jobs = [],
      background = [],
      sent = []\<rparr>"

section \<open>restart-2.py: restart after a fixed interval\<close>

text \<open>Line 4 of this file is \<^verbatim>\<open>import time\<close>.\<close>

definition module_globals2 :: "string list" where
  "module_globals2 =
     [''os'', ''signal'', ''threading'', ''time'', ''logging'', ''datetime'', ''uvicorn'',
      ''FastAPI'', ''BackgroundTasks'', ''logger'', ''app'', ''last_restart_time'',
      ''restart_interval_hours'', ''restart_thread'', ''should_restart'',
      ''scheduled_restart_task'', ''startup_event'', ''shutdown_event'', ''root'', ''status'',
      ''manual_restart'', ''configure_restart'']"

text \<open>
  Instants are microseconds on the process's clock (the resolution of \<^verbatim>\<open>datetime.now()\<close>);
  \<^verbatim>\<open>time.sleep\<close> takes seconds.
\<close>

definition seconds :: "int \<Rightarrow> int" where
  "seconds n = n * 1000000"

text \<open>
  A thread running \<^verbatim>\<open>scheduled_restart_task\<close> is either inside the \<^verbatim>\<open>time.sleep\<close> of
  line 32, which returns at the instant given, or has left the function.
\<close>

datatype thread_state = Sleeping int | Finished

record app2 =
  process_id2 :: int
  last_restart_time2 :: int
  restart_interval_hours2 :: int
  restart_thread :: "nat option"
  should_restart2 :: bool
  threads :: "thread_state list"
  background2 :: "task list"
  sent2 :: "(int \<times> signal) list"

definition os_kill2 :: "int \<Rightarrow> signal \<Rightarrow> app2 \<Rightarrow> app2" where
  "os_kill2 p sig st = st\<lparr>sent2 := sent2 st @ [(p, sig)]\<rparr>"

text \<open>
  \<^verbatim>\<open>scheduled_restart_task\<close> (lines 26--43), cut at its sleep. Entered at \<open>now\<close>, the
  loop test of line 30 is made once and the sleep of line 32 is begun with the interval
  read at that moment.
\<close>

definition scheduled_restart_task_enter :: "int \<Rightarrow> app2 \<Rightarrow> thread_state" where
  "scheduled_restart_task_enter now st =
     (if should_restart2 st then
        (case time_sleep module_globals2 (restart_interval_hours2 st * 3600) of
           Inl e \<Rightarrow> Finished
         | Inr _ \<Rightarrow> Sleeping (now + seconds (restart_interval_hours2 st * 3600)))
      else Finished)"

text \<open>
  When the sleep returns, at \<open>now\<close>, lines 35--43 run: there is no second look at
  \<open>should_restart\<close> before the signal.
\<close>

definition scheduled_restart_task_resume :: "int \<Rightarrow> app2 \<Rightarrow> app2" where
  "scheduled_restart_task_resume now st =
     (let pid = process_id2 st;
          st1 = st\<lparr>last_restart_time2 := now\<rparr>
      in os_kill2 pid SIGTERM st1)"

definition is_alive :: "nat \<Rightarrow> app2 \<Rightarrow> bool" where
  "is_alive i st = (i < length (threads st) \<and> threads st ! i \<noteq> Finished)"

text \<open>Thread \<open>i\<close> is given the processor at \<open>now\<close>: it goes on if its sleep is over.\<close>

definition wake_thread :: "nat \<Rightarrow> int \<Rightarrow> app2 \<Rightarrow> app2" where
  "wake_thread i now st =
     (if i < length (threads st) then
        (case threads st ! i of
           Sleeping w \<Rightarrow>
             if w \<le> now then
               (scheduled_restart_task_resume now st)\<lparr>threads := (threads st)[i := Finished]\<rparr>
             else st
         | Finished \<Rightarrow> st)
      else st)"

text \<open>
  \<^verbatim>\<open>restart_thread = threading.Thread(target=scheduled_restart_task)\<close>, then
  \<^verbatim>\<open>restart_thread.start()\<close>, at \<open>now\<close>.
\<close>

definition start_thread :: "int \<Rightarrow> app2 \<Rightarrow> app2" where
  "start_thread now st =
     (let st1 = st\<lparr>restart_thread := Some (length (threads st))\<rparr>
      in st1\<lparr>threads := threads st1 @ [scheduled_restart_task_enter now st1]\<rparr>)"

text \<open>
  \<^verbatim>\<open>restart_thread.join(timeout)\<close> called at \<open>now\<close>: it returns when the thread has left
  its function or when the timeout is over, whichever is first. The result is the
  instant of the return.
\<close>

definition thread_join :: "nat \<Rightarrow> int \<Rightarrow> int \<Rightarrow> app2 \<Rightarrow> int \<times> app2" where
  "thread_join i timeout now st =
     (if i < length (threads st) then
        (case threads st ! i of
           Finished \<Rightarrow> (now, st)
         | Sleeping w \<Rightarrow>
             if w \<le> now + timeout then (max w now, wake_thread i (max w now) st)
             else (now + timeout, st))
      else (now, st))"

definition startup_event2 :: "int \<Rightarrow> app2 \<Rightarrow> app2" where
  "startup_event2 now st = start_thread now st"

definition shutdown_event2 :: "app2 \<Rightarrow> app2" where
  "shutdown_event2 st = st\<lparr>should_restart2 := False\<rparr>"


definition status2 :: "int \<Rightarrow> app2 \<Rightarrow> response \<times> app2" where
  "status2 current_time st =
     (let next_restart = last_restart_time2 st + seconds (restart_interval_hours2 st * 3600);
          seconds_until_restart = max 0 (next_restart - current_time)
      in (ok (StatusBody2 (process_id2 st) (current_time - last_restart_time2 st)
                (last_restart_time2 st) seconds_until_restart (restart_interval_hours2 st)), st))"

definition manual_restart2 :: "app2 \<Rightarrow> response \<times> app2" where
  "manual_restart2 st =
     (let pid = process_id2 st
      in (ok (Restarting pid), st\<lparr>background2 := background2 st @ [DelayedRestart]\<rparr>))"

definition delayed_restart2 :: "app2 \<Rightarrow> py_error option \<times> app2" where
  "delayed_restart2 st =
     (let pid = process_id2 st
      in case time_sleep module_globals2 1 of
           Inl e \<Rightarrow> (Some e, st)
         | Inr _ \<Rightarrow> (None, os_kill2 pid SIGTERM st))"

definition run_background2 :: "app2 \<Rightarrow> py_error option \<times> app2" where
  "run_background2 st =
     (case background2 st of
        [] \<Rightarrow> (None, st)
      | DelayedRestart # ts \<Rightarrow> delayed_restart2 (st\<lparr>background2 := ts\<rparr>))"

text \<open>\<^verbatim>\<open>configure_restart\<close> (lines 108--132), called at \<open>now\<close>.\<close>

definition configure_restart2 :: "int \<Rightarrow> int \<Rightarrow> app2 \<Rightarrow> response \<times> app2" where
  "configure_restart2 now interval st =
     (if interval < 1 then (ok (ErrorBody ''Interval must be at least 1 hour''), st)
      else
        (let st1 = st\<lparr>restart_interval_hours2 := interval\<rparr>;
             st2 = st1\<lparr>should_restart2 := False\<rparr>;
             (now', st3) =
               (case restart_thread st2 of
                  None \<Rightarrow> (now, st2)
                | Some i \<Rightarrow>
                    if is_alive i st2 then thread_join i (seconds 1) now st2 else (now, st2));
             st4 = st3\<lparr>should_restart2 := True\<rparr>;
             st5 = start_thread now' st4
         in (ok (Configured interval (restart_interval_hours2 st5 * 3600)), st5)))"

text \<open>The fire times armed in a state: one for each thread inside its sleep.\<close>

fun fire_times2 :: "thread_state list \<Rightarrow> int list" where
  "fire_times2 [] = []"
| "fire_times2 (Sleeping w # ts) = w # fire_times2 ts"
| "fire_times2 (Finished # ts) = fire_times2 ts"

text \<open>The state of a fresh process (lines 21--24), imported at \<open>now\<close>.\<close>

definition initial2 :: "int \<Rightarrow> int \<Rightarrow> app2" where
  "initial2 p now =
     \<lparr>process_id2 = p,
      last_restart_time2 = now,
      restart_interval_hours2 = 6,
      restart_thread = None,
      should_restart2 = True,
      threads = [],
      background2 = [],
      sent2 = []\<rparr>"

section \<open>restart-3-graceful+forced.py: the external watchdog\<close>

definition module_globals3 :: "string list" where
  "module_globals3 =
     [''os'', ''signal'', ''subprocess'', ''time'', ''schedule'', ''logging'', ''psutil'',
      ''logger'', ''find_fastapi_pid'', ''restart_fastapi'', ''start_fastapi'',
      ''schedule_restarts'']"

text \<open>What \<^verbatim>\<open>psutil.process_iter(['pid', 'name', 'cmdline'])\<close> yields for one process.\<close>

record proc_info =
  pid :: int
  name :: string
  cmdline :: "string list option"

text \<open>\<^verbatim>\<open>' '.join(xs)\<close> and \<^verbatim>\<open>needle in haystack\<close> on strings.\<close>

fun join_space :: "string list \<Rightarrow> string" where
  "join_space [] = []"
| "join_space [x] = x"
| "join_space (x # y # ys) = x @ '' '' @ join_space (y # ys)"

fun str_in :: "string \<Rightarrow> string \<Rightarrow> bool" where
  "str_in needle [] = (needle = [])"
| "str_in needle (c # cs) = (take (length needle) (c # cs) = needle \<or> str_in needle cs)"

text \<open>
  The watchdog's calls to the operating system and to its logger, in the order made.
  \<open>Kill p s\<close> is the call \<^verbatim>\<open>os.kill(p, s)\<close>, whatever comes of it.
\<close>

datatype level = INFO | WARNING | ERROR

datatype action =
    Log level string
  | Kill int signal
  | Sleep int
  | PidExists int
  | Popen "string list"

text \<open>
  What the operating system answers to the calls of one \<^verbatim>\<open>restart_fastapi\<close>: an
  \<^verbatim>\<open>os.kill\<close> returns, raises \<^verbatim>\<open>ProcessLookupError\<close> (no such process) or raises
  something else (\<^verbatim>\<open>PermissionError\<close>, say).
\<close>

datatype kill_answer = Delivered | NoSuchProcess | Refused

text \<open>
  The target when the five seconds of grace are over: still running; exited but not yet
  waited for by its parent, so that its entry is still in the process table (a target
  launched by \<^verbatim>\<open>start_fastapi\<close> is a child of the watchdog, which waits for no child
  before its next \<^verbatim>\<open>Popen\<close>); or exited and gone from the table.
  \<^verbatim>\<open>psutil.pid_exists\<close> asks whether the table has an entry of that pid.
\<close>

datatype target_status = Running | Zombie | Gone

definition pid_exists :: "target_status \<Rightarrow> bool" where
  "pid_exists s = (s \<noteq> Gone)"

record os_answers =
  sigterm_answer :: kill_answer
  after_grace :: target_status
  sigkill_answer :: kill_answer
  popen_ok :: bool

definition os_kill3 :: "kill_answer \<Rightarrow> py_error + unit" where
  "os_kill3 a =
     (case a of Delivered \<Rightarrow> Inr () | NoSuchProcess \<Rightarrow> Inl ProcessLookupError
      | Refused \<Rightarrow> Inl OtherException)"

text \<open>\<^verbatim>\<open>find_fastapi_pid\<close> (lines 16--29) over the processes enumerated.\<close>

fun find_fastapi_pid :: "proc_info list \<Rightarrow> action list \<times> int option" where
  "find_fastapi_pid [] = ([Log WARNING ''No FastAPI/Uvicorn process found''], None)"
| "find_fastapi_pid (p # ps) =
     (case cmdline p of
        None \<Rightarrow> find_fastapi_pid ps
      | Some cl \<Rightarrow>
          if cl \<noteq> [] \<and> str_in ''uvicorn'' (join_space cl) then
            ([Log INFO ''Found FastAPI/Uvicorn process: {pid}''], Some (pid p))
          else find_fastapi_pid ps)"

text \<open>\<^verbatim>\<open>start_fastapi\<close> (lines 59--73): it catches whatever \<^verbatim>\<open>Popen\<close> raises.\<close>

definition start_fastapi :: "os_answers \<Rightarrow> action list" where
  "start_fastapi env =
     [Log INFO ''Starting FastAPI application'',
      Popen [''uvicorn'', ''main:app'', ''--host'', ''0.0.0.0'', ''--port'', ''8000'']] @
     (if popen_ok env then [Log INFO ''FastAPI application started'']
      else [Log ERROR ''Error starting FastAPI application: {e}''])"

text \<open>The two \<^verbatim>\<open>except\<close> clauses of lines 51--54.\<close>

definition restart_except :: "py_error \<Rightarrow> action list" where
  "restart_except e =
     (case e of
        ProcessLookupError \<Rightarrow> [Log ERROR ''Process with PID {pid} not found'']
      | _ \<Rightarrow> [Log ERROR ''Error during restart: {e}''])"

text \<open>
  \<^verbatim>\<open>restart_fastapi\<close> (lines 31--57). \<^verbatim>\<open>if pid:\<close> is false for \<^verbatim>\<open>None\<close> and for 0.
\<close>

definition restart_fastapi :: "proc_info list \<Rightarrow> os_answers \<Rightarrow> action list" where
  "restart_fastapi procs env =
     (let (found, pid) = find_fastapi_pid procs
      in if pid \<noteq> None \<and> pid \<noteq> Some 0 then
           found @
           [Log INFO ''Restarting FastAPI application with PID {pid}'', Kill (the pid) SIGTERM] @
           (case os_kill3 (sigterm_answer env) of
              Inl e \<Rightarrow> restart_except e
            | Inr _ \<Rightarrow>
                Log INFO ''SIGTERM signal sent successfully'' #
                (case time_sleep module_globals3 5 of
                   Inl e \<Rightarrow> restart_except e
                 | Inr _ \<Rightarrow>
                     Sleep 5 # PidExists (the pid) #
                     (if pid_exists (after_grace env) then
                        [Log WARNING ''Process {pid} still running after SIGTERM, sending SIGKILL'',
                         Kill (the pid) SIGKILL] @
                        (case os_kill3 (sigkill_answer env) of
                           Inl e \<Rightarrow> restart_except e
                         | Inr _ \<Rightarrow> start_fastapi env)
                      else start_fastapi env)))
         else
           found @
           [Log WARNING ''No FastAPI process found to restart, starting a new instance''] @
           start_fastapi env)"

text \<open>The signals of a trace with the pids they are sent to, in order.\<close>

fun kills_of :: "action list \<Rightarrow> (int \<times> signal) list" where
  "kills_of [] = []"
| "kills_of (Kill p s # as) = (p, s) # kills_of as"
| "kills_of (a # as) = kills_of as"

fun launches :: "action list \<Rightarrow> nat" where
  "launches [] = 0"
| "launches (Popen c # as) = Suc (launches as)"
| "launches (a # as) = launches as"

section \<open>Concrete instances\<close>

text \<open>
  The zone \<^verbatim>\<open>Europe/London\<close> as it is in 2024: summer time, one hour east of UTC, from
  31 March 01:00 UTC (day 738976) to 27 October 01:00 UTC (day 739186), and UTC
  otherwise. The instances below lie in that year.
\<close>

definition europe_london_2024 :: zone where
  "europe_london_2024 u =
     (if 63847530000000000 \<le> u \<and> u < 63865674000000000 then 3600000000 else 0)"

text \<open>Day 739000 is 24 April 2024; London is on summer time.\<close>

definition noon :: datetime where
  "noon = \<lparr>day = 739000, hour = 12, minute = 0, second = 0, microsecond = 0,
            utcoffset = 3600000000\<rparr>"

definition running1 :: app1 where
  "running1 = snd (startup_event1 noon (initial1 europe_london_2024 4242 noon))"

definition get_status :: request where
  "get_status = \<lparr>req_method = GET, req_path = ''/status'', interval_hours = None\<rparr>"

definition get_unlisted :: request where
  "get_unlisted = \<lparr>req_method = GET, req_path = ''/metrics'', interval_hours = None\<rparr>"

definition post_restart :: request where
  "post_restart = \<lparr>req_method = POST, req_path = ''/admin/restart'', interval_hours = None\<rparr>"

definition post_configure :: "int \<Rightarrow> request" where
  "post_configure i = \<lparr>req_method = POST, req_path = ''/admin/configure'', interval_hours = Some i\<rparr>"

definition half_past_eleven :: datetime where
  "half_past_eleven =
     \<lparr>day = 739000, hour = 23, minute = 30, second = 0, microsecond = 0,
      utcoffset = 3600000000\<rparr>"

text \<open>The running instance after a manual restart has been requested at noon.\<close>

definition restarting1 :: app1 where
  "restarting1 = snd (handle1 framework_default noon post_restart running1)"

fun is_http :: "datetime \<times> event1 \<Rightarrow> bool" where
  "is_http (now, Http req) = True"
| "is_http (now, e) = False"



text \<open>
  What \<^verbatim>\<open>datetime.now(timezone('Europe/London'))\<close> returns on Saturday 30 March 2024
  (day 738975) at 23:45 UTC, the night before the clocks go forward.
\<close>

definition saturday_night :: datetime where
  "saturday_night = datetime_now europe_london_2024 63847525500000000"

text \<open>An instance of \<^verbatim>\<open>restart-2.py\<close> imported and started at instant 0.\<close>

definition running2 :: app2 where
  "running2 = startup_event2 0 (initial2 4242 0)"

text \<open>Three enumerated processes, and ways the operating system can answer.\<close>

definition uvicorn_proc :: proc_info where
  "uvicorn_proc = \<lparr>pid = 4242, name = ''uvicorn'',
     cmdline = Some [''/usr/bin/python3'', ''/usr/local/bin/uvicorn'', ''main:app'']\<rparr>"

definition shell_proc :: proc_info where
  "shell_proc = \<lparr>pid = 1, name = ''init'', cmdline = Some [''/sbin/init'']\<rparr>"

definition kernel_proc :: proc_info where
  "kernel_proc = \<lparr>pid = 2, name = ''kthreadd'', cmdline = Some []\<rparr>"

definition stubborn :: os_answers where
  "stubborn = \<lparr>sigterm_answer = Delivered, after_grace = Running,
                sigkill_answer = Delivered, popen_ok = True\<rparr>"

definition obedient :: os_answers where
  "obedient = \<lparr>sigterm_answer = Delivered, after_grace = Gone,
                sigkill_answer = Delivered, popen_ok = True\<rparr>"

text \<open>The target is a child of the watchdog and exits at once on SIGTERM.\<close>

definition obedient_child :: os_answers where
  "obedient_child = \<lparr>sigterm_answer = Delivered, after_grace = Zombie,
                      sigkill_answer = Delivered, popen_ok = True\<rparr>"

definition vanished :: os_answers where
  "vanished = \<lparr>sigterm_answer = NoSuchProcess, after_grace = Gone,
                sigkill_answer = NoSuchProcess, popen_ok = True\<rparr>"

section \<open>The request gate\<close>

lemma gate_blocks:
  "restart_in_progress st \<Longrightarrow> check_restart_status call_next req st = (unavailable, st)"
  by (simp add: check_restart_status_def)

lemma gate_passes:
  "\<not> restart_in_progress st \<Longrightarrow> check_restart_status call_next req st = call_next req st"
  by (simp add: check_restart_status_def)

text \<open>
  Every handler of \<^verbatim>\<open>restart-1.py\<close> returns a dict, hence status 200, unless an
  exception leaves it, hence 500.
\<close>

lemma call_next1_status:
  "status_code (fst (call_next1 fw now req st)) = 200 \<or>
   status_code (fst (call_next1 fw now req st)) = 500 \<or>
   fst (call_next1 fw now req st) = fw req"
  by (auto simp: call_next1_def root1_def status1_def manual_restart1_def
      configure_restart1_def ok_def server_error_def Let_def split: option.splits prod.splits)

lemma running1_eq:
  "running1 =
     \<lparr>process_id = 4242,
      last_restart_time = noon,
      default_restart_time = \<lparr>time_hour = 23, time_minute = 30\<rparr>,
      should_restart = True,
      restart_in_progress = False,
      restart_interval_hours = None,
      scheduler_timezone = europe_london_2024,
      scheduler_running = True,
      jobs = [\<lparr>job_trigger = DateTrigger
                  \<lparr>day = 739000, hour = 23, minute = 30, second = 0, microsecond = 0,
                   utcoffset = 3600000000\<rparr>,
                next_run_time =
                  \<lparr>day = 739000, hour = 23, minute = 30, second = 0, microsecond = 0,
                   utcoffset = 3600000000\<rparr>\<rparr>],
      background = [],
      sent = []\<rparr>"
  by (simp add: running1_def startup_event1_def initial1_def schedule_restart_def
      next_restart_at_def noon_def dt_ge_def dt_less_def fields_less_def Let_def)

text \<open>
  C1. The middleware of \<^verbatim>\<open>restart-1.py\<close> answers 503 and leaves the state alone when
  \<open>restart_in_progress\<close> is set, whatever the request and whatever would have handled it;
  otherwise its result is exactly that of \<open>call_next\<close>. With the routes of this file
  behind it, and a framework that does not itself answer 503 to a request that reaches no
  handler, the status is 503 if and only if \<open>restart_in_progress\<close> is set.
\<close>

theorem request_gate_503_iff:
  "(restart_in_progress st \<longrightarrow> check_restart_status call_next req st = (unavailable, st)) \<and>
   status_code unavailable = 503 \<and>
   (\<not> restart_in_progress st \<longrightarrow> check_restart_status call_next req st = call_next req st) \<and>
   (status_code (fw req) \<noteq> 503 \<longrightarrow>
      (status_code (fst (handle1 fw now req st)) = 503 \<longleftrightarrow> restart_in_progress st))"
  using call_next1_status[of fw now req st]
  by (auto simp: handle1_def check_restart_status_def unavailable_def)

theorem request_gate_503_iff_witness:
  "\<not> restart_in_progress running1 \<and>
   status_code (framework_default get_unlisted) \<noteq> 503 \<and>
   status_code (fst (handle1 framework_default noon get_unlisted running1)) = 404 \<and>
   restart_in_progress (running1\<lparr>restart_in_progress := True\<rparr>) \<and>
   check_restart_status (call_next1 framework_default noon) get_unlisted
      (running1\<lparr>restart_in_progress := True\<rparr>)
     = (unavailable, running1\<lparr>restart_in_progress := True\<rparr>)"
  using request_gate_503_iff[of running1 "call_next1 framework_default noon" get_unlisted
          framework_default noon]
        request_gate_503_iff[of "running1\<lparr>restart_in_progress := True\<rparr>"
          "call_next1 framework_default noon" get_unlisted framework_default noon]
  by (simp add: running1_eq framework_default_def app_paths_def doc_paths_def
      rstrip_slash_def get_unlisted_def handle1_def call_next1_def Let_def)

section \<open>The unbound name of restart-1.py\<close>

lemma time_sleep1: "time_sleep module_globals1 n = Inl (NameError ''time'')"
  by (simp add: time_sleep_def module_globals1_def)

lemma perform_restart_eq:
  "perform_restart now st = (Some (NameError ''time''),
      st\<lparr>last_restart_time := now, restart_in_progress := True,
         sent := sent st @ [(process_id st, SIGTERM)]\<rparr>)"
  by (simp add: perform_restart_def time_sleep1 os_kill1_def Let_def)

lemma delayed_restart1_eq: "delayed_restart1 st = (Some (NameError ''time''), st)"
  by (simp add: delayed_restart1_def time_sleep1 Let_def)

lemma perform_restarts_in_progress:
  "restart_in_progress st \<Longrightarrow> restart_in_progress (perform_restarts n now st)"
  by (induction n arbitrary: st) (simp_all add: perform_restart_eq)

lemma scheduler_fire_in_progress:
  "restart_in_progress st \<Longrightarrow> restart_in_progress (snd (scheduler_fire now st))"
  by (simp add: scheduler_fire_def perform_restarts_in_progress Let_def
      split: prod.splits option.splits)

text \<open>A round of the scheduler over a single date job that is due and in time.\<close>

lemma fire_date_job:
  assumes "jobs st = [j]" and "job_trigger j = DateTrigger d" and "scheduler_running st"
    and "dt_ge now (next_run_time j)" and "dt_sub now (next_run_time j) \<le> misfire_grace"
  shows "scheduler_fire now st =
           (None, st\<lparr>last_restart_time := now, restart_in_progress := True,
                      jobs := [], sent := sent st @ [(process_id st, SIGTERM)]\<rparr>)"
  using assms
  by (simp add: scheduler_fire_def process_job_def dt_ge_def perform_restart_eq)

lemma half_past_eleven_due:
  "dt_ge half_past_eleven half_past_eleven"
  "dt_sub half_past_eleven half_past_eleven \<le> misfire_grace"
  by (simp_all add: dt_ge_def dt_less_def fields_less_def dt_sub_def misfire_grace_def)

lemma step1_in_progress:
  "restart_in_progress st \<Longrightarrow> restart_in_progress (snd (step1 fw e st))"
proof (cases e)
  case (Pair now ev)
  assume ip: "restart_in_progress st"
  show ?thesis
  proof (cases ev)
    case (Http req)
    then show ?thesis using ip Pair by (simp add: handle1_def gate_blocks)
  next
    case Fire
    then show ?thesis using ip Pair by (simp add: scheduler_fire_in_progress)
  next
    case RunTask
    then show ?thesis using ip Pair
      by (simp add: run_background1_def delayed_restart1_eq split: list.splits task.splits)
  next
    case Shutdown
    then show ?thesis using ip Pair by (simp add: shutdown_event1_def)
  qed
qed

lemma step1_unavailable:
  "restart_in_progress st \<Longrightarrow> fst (step1 fw e st) = Some r \<Longrightarrow> r = unavailable"
proof (cases e)
  case (Pair now ev)
  assume "restart_in_progress st" "fst (step1 fw e st) = Some r"
  then show ?thesis using Pair by (cases ev) (auto simp: handle1_def gate_blocks)
qed

lemma run1_unavailable:
  "restart_in_progress st \<Longrightarrow> r \<in> set (fst (run1 fw es st)) \<Longrightarrow> r = unavailable"
proof (induction es arbitrary: st r)
  case Nil
  then show ?case by simp
next
  case (Cons e es)
  obtain r1 st1 where s: "step1 fw e st = (r1, st1)" by (cases "step1 fw e st")
  obtain rs st2 where t: "run1 fw es st1 = (rs, st2)" by (cases "run1 fw es st1")
  have ip: "restart_in_progress st1" using step1_in_progress[OF Cons.prems(1), of fw e] s by simp
  have tail: "\<And>x. x \<in> set rs \<Longrightarrow> x = unavailable" using Cons.IH[OF ip] t by simp
  show ?case
  proof (cases r1)
    case None
    then show ?thesis using Cons.prems(2) s t tail by simp
  next
    case (Some x)
    have "x = unavailable" using step1_unavailable[OF Cons.prems(1), of fw e x] s Some by simp
    then show ?thesis using Cons.prems(2) s t tail Some by auto
  qed
qed

lemma run1_in_progress:
  "restart_in_progress st \<Longrightarrow> restart_in_progress (snd (run1 fw es st))"
proof (induction es arbitrary: st)
  case Nil
  then show ?case by simp
next
  case (Cons e es)
  obtain r1 st1 where s: "step1 fw e st = (r1, st1)" by (cases "step1 fw e st")
  obtain rs st2 where t: "run1 fw es st1 = (rs, st2)" by (cases "run1 fw es st1")
  have ip: "restart_in_progress st1" using step1_in_progress[OF Cons.prems(1), of fw e] s by simp
  show ?case using Cons.IH[OF ip] s t by simp
qed

lemma manual_through_gate:
  "\<not> restart_in_progress st \<Longrightarrow>
   handle1 fw now post_restart st =
     (ok (Restarting (process_id st)),
      st\<lparr>restart_in_progress := True, background := background st @ [DelayedRestart]\<rparr>)"
  by (simp add: handle1_def gate_passes call_next1_def post_restart_def manual_restart1_def Let_def)

text \<open>
  C10. \<^verbatim>\<open>restart-1.py\<close> never binds the name \<^verbatim>\<open>time\<close>. A scheduled fire therefore
  records the restart, sets \<open>restart_in_progress\<close>, sends SIGTERM and then leaves
  \<^verbatim>\<open>perform_restart\<close> with a NameError, no SIGKILL sent; the background task of a manual
  restart leaves with a NameError before any signal. The manual-restart request itself,
  passing the gate, has already set \<open>restart_in_progress\<close> and queued the task; from then
  on, whatever events follow in that process, the flag stays set and every request is
  answered 503.
\<close>

theorem restart1_time_unbound:
  "''time'' \<notin> set module_globals1 \<and>
   perform_restart now st =
     (Some (NameError ''time''),
      st\<lparr>last_restart_time := now, restart_in_progress := True,
         sent := sent st @ [(process_id st, SIGTERM)]\<rparr>) \<and>
   delayed_restart1 st = (Some (NameError ''time''), st) \<and>
   (\<not> restart_in_progress st \<longrightarrow>
      (let st' = snd (handle1 fw now post_restart st)
       in restart_in_progress st' \<and>
          background st' = background st @ [DelayedRestart] \<and>
          sent st' = sent st \<and>
          restart_in_progress (snd (run1 fw es st')) \<and>
          (\<forall>r \<in> set (fst (run1 fw es st')). r = unavailable \<and> status_code r = 503)))"
proof -
  have a: "''time'' \<notin> set module_globals1" by (simp add: module_globals1_def)
  have d: "\<not> restart_in_progress st \<longrightarrow>
      (let st' = snd (handle1 fw now post_restart st)
       in restart_in_progress st' \<and>
          background st' = background st @ [DelayedRestart] \<and>
          sent st' = sent st \<and>
          restart_in_progress (snd (run1 fw es st')) \<and>
          (\<forall>r \<in> set (fst (run1 fw es st')). r = unavailable \<and> status_code r = 503))"
  proof
    assume n: "\<not> restart_in_progress st"
    let ?st = "snd (handle1 fw now post_restart st)"
    have ip: "restart_in_progress ?st" using manual_through_gate[OF n] by simp
    have b: "background ?st = background st @ [DelayedRestart]" "sent ?st = sent st"
      using manual_through_gate[OF n] by simp_all
    have u: "\<forall>r \<in> set (fst (run1 fw es ?st)). r = unavailable \<and> status_code r = 503"
    proof
      fix r assume "r \<in> set (fst (run1 fw es ?st))"
      then have "r = unavailable" by (rule run1_unavailable[OF ip])
      then show "r = unavailable \<and> status_code r = 503" by (simp add: unavailable_def)
    qed
    show "let st' = ?st
       in restart_in_progress st' \<and>
          background st' = background st @ [DelayedRestart] \<and>
          sent st' = sent st \<and>
          restart_in_progress (snd (run1 fw es st')) \<and>
          (\<forall>r \<in> set (fst (run1 fw es st')). r = unavailable \<and> status_code r = 503)"
      unfolding Let_def using ip b u run1_in_progress[OF ip] by simp
  qed
  show ?thesis using a perform_restart_eq delayed_restart1_eq d by simp
qed

lemma restarting1_eq:
  "restarting1 = running1\<lparr>restart_in_progress := True, background := [DelayedRestart]\<rparr>"
  using manual_through_gate[of running1 framework_default noon]
  by (simp add: restarting1_def running1_eq)

lemma restarting1_fire:
  "scheduler_fire half_past_eleven restarting1
     = (None, restarting1\<lparr>last_restart_time := half_past_eleven, jobs := [],
                            sent := [(4242, SIGTERM)]\<rparr>)"
proof -
  have j: "jobs restarting1
             = [\<lparr>job_trigger = DateTrigger half_past_eleven, next_run_time = half_past_eleven\<rparr>]"
    by (simp add: restarting1_eq running1_eq half_past_eleven_def)
  show ?thesis
    using fire_date_job[OF j, of half_past_eleven half_past_eleven] half_past_eleven_due
    by (simp add: restarting1_eq running1_eq)
qed

lemma restarting1_run:
  "fst (run1 framework_default
          [(noon, RunTask), (noon, Http get_status), (half_past_eleven, Fire),
           (half_past_eleven, Http get_unlisted)] restarting1)
     = [unavailable, unavailable]"
proof -
  have a: "run_background1 restarting1
             = (Some (NameError ''time''), restarting1\<lparr>background := []\<rparr>)"
    by (simp add: run_background1_def restarting1_eq delayed_restart1_eq)
  have b: "restart_in_progress (restarting1\<lparr>background := []\<rparr>)"
    by (simp add: restarting1_eq)
  have c: "restart_in_progress (snd (scheduler_fire half_past_eleven
             (restarting1\<lparr>background := []\<rparr>)))"
    by (rule scheduler_fire_in_progress[OF b])
  show ?thesis
    by (simp add: a handle1_def gate_blocks[OF b] gate_blocks[OF c])
qed

lemma restarting1_sent:
  "sent (snd (run1 framework_default [(noon, RunTask), (noon, Http get_status)] restarting1)) = []"
  by (simp add: restarting1_eq running1_eq run_background1_def
      delayed_restart1_eq handle1_def gate_blocks)

theorem restart1_time_unbound_witness:
  "\<not> restart_in_progress running1 \<and>
   fst (run1 framework_default
          [(noon, RunTask), (noon, Http get_status), (half_past_eleven, Fire),
           (half_past_eleven, Http get_unlisted)]
          (snd (handle1 framework_default noon post_restart running1)))
     = [unavailable, unavailable] \<and>
   sent (snd (run1 framework_default
          [(noon, RunTask), (noon, Http get_status)]
          (snd (handle1 framework_default noon post_restart running1)))) = []"
  using restart1_time_unbound[of noon running1 framework_default
          "[(noon, RunTask), (noon, Http get_status), (half_past_eleven, Fire),
            (half_past_eleven, Http get_unlisted)]"]
        restarting1_run[unfolded restarting1_def] restarting1_sent[unfolded restarting1_def]
  by (simp add: running1_eq)

section \<open>Reconfiguration with an interval below one hour\<close>

text \<open>
  C3, as stated, fails on the status: with \<open>interval_hours = 0\<close> both variants answer
  200, not 400.
\<close>

theorem configure_invalid_status_counterexample:
  "status_code (fst (handle1 framework_default noon (post_configure 0) running1)) = 200 \<and>
   status_code (fst (configure_restart2 3600000000 0 running2)) = 200"
  by (simp add: handle1_def gate_passes running1_eq call_next1_def post_configure_def
      configure_restart1_def configure_restart2_def ok_def)

text \<open>
  C3, amended. With \<open>interval_hours < 1\<close>, \<^verbatim>\<open>configure_restart\<close> of either variant
  returns at once the body \<^verbatim>\<open>{"error": "Interval must be at least 1 hour"}\<close> under the
  framework's default status 200, and the state after the call is the state before it;
  so it is for the request sent through the gate of \<^verbatim>\<open>restart-1.py\<close>.
\<close>

theorem configure_invalid_no_effect:
  assumes "interval < 1"
  shows "configure_restart1 now interval st
           = (\<lparr>status_code = 200, content = ErrorBody ''Interval must be at least 1 hour''\<rparr>, st) \<and>
         snd (handle1 fw now (post_configure interval) st) = st \<and>
         configure_restart2 now2 interval st2
           = (\<lparr>status_code = 200, content = ErrorBody ''Interval must be at least 1 hour''\<rparr>, st2)"
  using assms
  by (simp add: configure_restart1_def configure_restart2_def ok_def handle1_def
      check_restart_status_def call_next1_def post_configure_def)

theorem configure_invalid_no_effect_witness:
  "(0::int) < 1 \<and>
   configure_restart1 noon 0 running1
     = (\<lparr>status_code = 200, content = ErrorBody ''Interval must be at least 1 hour''\<rparr>, running1) \<and>
   configure_restart2 3600000000 (- 5) running2
     = (\<lparr>status_code = 200, content = ErrorBody ''Interval must be at least 1 hour''\<rparr>, running2)"
  using configure_invalid_no_effect[of 0 noon running1 framework_default 3600000000 running2]
        configure_invalid_no_effect[of "- 5" noon running1 framework_default 3600000000 running2]
  by simp

section \<open>A second trigger within one restart episode\<close>

text \<open>
  C2, as stated, fails. In \<^verbatim>\<open>restart-1.py\<close>, after a manual restart has set
  \<open>restart_in_progress\<close> and no signal has been sent yet, the scheduled fire of 23:30
  still sends SIGTERM. In \<^verbatim>\<open>restart-2.py\<close>, two manual restarts queue two tasks and
  each sends SIGTERM.
\<close>

theorem second_trigger_counterexample:
  "restart_in_progress restarting1 \<and>
   sent restarting1 = [] \<and>
   sent (snd (scheduler_fire half_past_eleven restarting1)) = [(4242, SIGTERM)] \<and>
   sent2 (snd (run_background2 (snd (run_background2
            (snd (manual_restart2 (snd (manual_restart2 running2))))))))
     = [(4242, SIGTERM), (4242, SIGTERM)]"
proof -
  have a: "restart_in_progress restarting1" "sent restarting1 = []"
    by (simp_all add: restarting1_eq running1_eq)
  have b: "sent (snd (scheduler_fire half_past_eleven restarting1)) = [(4242, SIGTERM)]"
    by (simp add: restarting1_fire)
  have c: "sent2 (snd (run_background2 (snd (run_background2
            (snd (manual_restart2 (snd (manual_restart2 running2))))))))
     = [(4242, SIGTERM), (4242, SIGTERM)]"
    by (simp add: running2_def startup_event2_def start_thread_def
        initial2_def manual_restart2_def run_background2_def delayed_restart2_def
        time_sleep_def module_globals2_def os_kill2_def Let_def)
  show ?thesis using a b c by simp
qed

lemma http_blocked:
  "restart_in_progress st \<Longrightarrow> is_http e \<Longrightarrow> step1 fw e st = (Some unavailable, st)"
  by (cases e rule: is_http.cases) (simp_all add: handle1_def gate_blocks)

lemma run1_http_blocked:
  "restart_in_progress st \<Longrightarrow> \<forall>e \<in> set es. is_http e \<Longrightarrow> snd (run1 fw es st) = st"
proof (induction es)
  case Nil
  then show ?case by simp
next
  case (Cons e es)
  have e: "step1 fw e st = (Some unavailable, st)"
    using Cons.prems by (simp add: http_blocked)
  have "snd (run1 fw es st) = st" using Cons by simp
  then show ?case using e by (cases "run1 fw es st") simp
qed

text \<open>
  C2, amended. In \<^verbatim>\<open>restart-1.py\<close>, a manual trigger that arrives while
  \<open>restart_in_progress\<close> is set is answered 503 by the gate and changes nothing: no task
  is queued and no signal sent, however many requests arrive.
\<close>

theorem manual_trigger_gated:
  assumes "restart_in_progress st"
  shows "handle1 fw now post_restart st = (unavailable, st) \<and>
         ((\<forall>e \<in> set es. is_http e) \<longrightarrow>
            snd (run1 fw es st) = st)"
  using assms run1_http_blocked[OF assms, of es fw]
  by (simp add: handle1_def gate_blocks)

theorem manual_trigger_gated_witness:
  "restart_in_progress restarting1 \<and>
   is_http (noon, Http post_restart) \<and>
   handle1 framework_default noon post_restart restarting1 = (unavailable, restarting1) \<and>
   snd (run1 framework_default [(noon, Http post_restart), (noon, Http post_restart)] restarting1)
     = restarting1"
  using manual_trigger_gated[of restarting1 framework_default noon
          "[(noon, Http post_restart), (noon, Http post_restart)]"]
  by (simp add: restarting1_eq)

section \<open>The run date of restart-1.py\<close>

lemma div_unique_int:
  fixes q r k :: int
  assumes "0 \<le> r" "r < k"
  shows "(q * k + r) div k = q"
  using assms by (simp add: div_pos_pos_trivial)

lemma mod_unique_int:
  fixes q r k :: int
  assumes "0 \<le> r" "r < k"
  shows "(q * k + r) mod k = r"
  using assms by simp

lemma of_us_midnight_fields:
  assumes "0 \<le> h" "h < 24" "0 \<le> m" "m < 60"
  shows "of_us ((((d * 24 + h) * 60 + m) * 60) * 1000000) off
         = \<lparr>day = d, hour = h, minute = m, second = 0, microsecond = 0, utcoffset = off\<rparr>"
proof -
  let ?n = "(((d * 24 + h) * 60 + m) * 60) * 1000000"
  have r: "0 \<le> h * 3600000000 + m * 60000000" "h * 3600000000 + m * 60000000 < 86400000000"
    using assms by linarith+
  have n1: "?n = d * 86400000000 + (h * 3600000000 + m * 60000000)"
    by (simp add: distrib_right mult.assoc)
  have dd: "?n div 86400000000 = d" unfolding n1 by (rule div_unique_int[OF r])
  have n2: "?n = (d * 24 + h) * 3600000000 + m * 60000000"
    by (simp add: distrib_right mult.assoc)
  have r2: "0 \<le> m * 60000000" "m * 60000000 < 3600000000" using assms by linarith+
  have hh0: "?n div 3600000000 = d * 24 + h" unfolding n2 by (rule div_unique_int[OF r2])
  have hh: "?n div 3600000000 mod 24 = h"
    unfolding hh0 by (rule mod_unique_int[OF assms(1,2)])
  have n3: "?n = ((d * 24 + h) * 60 + m) * 60000000 + 0" by (simp add: mult.assoc)
  have z: "(0::int) \<le> 0" "(0::int) < 60000000" by simp_all
  have mm0: "?n div 60000000 = (d * 24 + h) * 60 + m" unfolding n3 by (rule div_unique_int[OF z])
  have mm: "?n div 60000000 mod 60 = m"
    unfolding mm0 by (rule mod_unique_int[OF assms(3,4)])
  have ss0: "?n div 1000000 = ((d * 24 + h) * 60 + m) * 60" by simp
  have ss: "?n div 1000000 mod 60 = 0" unfolding ss0 by simp
  have uu: "?n mod 1000000 = 0" by simp
  show ?thesis unfolding of_us_def dd hh mm ss uu by (rule refl)
qed

lemma replace_explicit:
  "now\<lparr>hour := h, minute := m, second := 0, microsecond := 0\<rparr>
   = \<lparr>day = day now, hour = h, minute = m, second = 0, microsecond = 0,
        utcoffset = utcoffset now\<rparr>"
  by (cases now) simp

lemma add_one_day:
  assumes "valid_dtime t" and "0 \<le> d" and "d < max_ordinal"
  shows "dt_add \<lparr>day = d, hour = time_hour t, minute = time_minute t, second = 0,
                  microsecond = 0, utcoffset = off\<rparr> one_day
       = Inr \<lparr>day = d + 1, hour = time_hour t, minute = time_minute t, second = 0,
                microsecond = 0, utcoffset = off\<rparr>"
proof -
  have v: "0 \<le> time_hour t" "time_hour t < 24" "0 \<le> time_minute t" "time_minute t < 60"
    using assms(1) by (simp_all add: valid_dtime_def)
  have "to_us \<lparr>day = d, hour = time_hour t, minute = time_minute t, second = 0,
                 microsecond = 0, utcoffset = off\<rparr>
          + one_day
        = ((((d + 1) * 24 + time_hour t) * 60 + time_minute t) * 60) * 1000000"
    by (simp add: to_us_def one_day_def distrib_right mult.assoc)
  then show ?thesis
    unfolding dt_add_def using of_us_midnight_fields[OF v, of "d + 1" off] assms(2,3)
    by (simp add: checked_def)
qed

text \<open>
  What lines 53--55 compute, on the wall clock: the time of day \<open>t\<close> on the day of
  \<open>now\<close>, or one day later, with the UTC offset that \<open>now\<close> carries.
\<close>

lemma next_restart_at_cases:
  assumes "valid_dtime t" and "0 \<le> day now" and "day now < max_ordinal"
  shows "next_restart_at t now =
     Inr (if dt_less now \<lparr>day = day now, hour = time_hour t, minute = time_minute t,
                             second = 0, microsecond = 0, utcoffset = utcoffset now\<rparr>
          then \<lparr>day = day now, hour = time_hour t, minute = time_minute t,
                 second = 0, microsecond = 0, utcoffset = utcoffset now\<rparr>
          else \<lparr>day = day now + 1, hour = time_hour t, minute = time_minute t,
                 second = 0, microsecond = 0, utcoffset = utcoffset now\<rparr>)"
  by (simp add: next_restart_at_def Let_def dt_ge_def replace_explicit add_one_day[OF assms])

lemma saturday_night_eq:
  "saturday_night = \<lparr>day = 738975, hour = 23, minute = 45, second = 0, microsecond = 0,
                      utcoffset = 0\<rparr>"
  by (simp add: saturday_night_def datetime_now_def europe_london_2024_def of_us_def)

text \<open>
  C4, at a failing input. The process starts in London on Saturday 30 March 2024 at
  23:45, the night before the clocks go forward. 23:30 of that day is past, so the run
  date is 23:30 of the next day, with the offset of the Saturday: 2024-03-31T23:30+00:00.
  In London that instant is 00:30 on Monday 1 April. The job of \<^verbatim>\<open>startup_event\<close> is armed
  with that run date.
\<close>

theorem clock_change_shifts_restart:
  "saturday_night = datetime_now europe_london_2024 63847525500000000 \<and>
   saturday_night = \<lparr>day = 738975, hour = 23, minute = 45, second = 0, microsecond = 0,
                      utcoffset = 0\<rparr> \<and>
   next_restart_at \<lparr>time_hour = 23, time_minute = 30\<rparr> saturday_night
     = Inr \<lparr>day = 738976, hour = 23, minute = 30, second = 0, microsecond = 0,
            utcoffset = 0\<rparr> \<and>
   tz_normalize europe_london_2024
      \<lparr>day = 738976, hour = 23, minute = 30, second = 0, microsecond = 0, utcoffset = 0\<rparr>
     = Inr \<lparr>day = 738977, hour = 0, minute = 30, second = 0, microsecond = 0,
            utcoffset = 3600000000\<rparr> \<and>
   map next_run_time
     (jobs (snd (startup_event1 saturday_night
                   (initial1 europe_london_2024 4242 saturday_night))))
     = [\<lparr>day = 738976, hour = 23, minute = 30, second = 0, microsecond = 0,
         utcoffset = 0\<rparr>]"
proof -
  have v: "valid_dtime \<lparr>time_hour = 23, time_minute = 30\<rparr>" by (simp add: valid_dtime_def)
  have n: "next_restart_at \<lparr>time_hour = 23, time_minute = 30\<rparr> saturday_night
     = Inr \<lparr>day = 738976, hour = 23, minute = 30, second = 0, microsecond = 0,
            utcoffset = 0\<rparr>"
    using next_restart_at_cases[OF v, of saturday_night]
    by (simp add: saturday_night_eq max_ordinal_def dt_less_def fields_less_def)
  have z: "tz_normalize europe_london_2024
      \<lparr>day = 738976, hour = 23, minute = 30, second = 0, microsecond = 0, utcoffset = 0\<rparr>
     = Inr \<lparr>day = 738977, hour = 0, minute = 30, second = 0, microsecond = 0,
            utcoffset = 3600000000\<rparr>"
    by (simp add: tz_normalize_def datetime_now_def utc_us_def to_us_def europe_london_2024_def
        of_us_def checked_def max_ordinal_def)
  have s: "map next_run_time
     (jobs (snd (startup_event1 saturday_night
                   (initial1 europe_london_2024 4242 saturday_night))))
     = [\<lparr>day = 738976, hour = 23, minute = 30, second = 0, microsecond = 0,
         utcoffset = 0\<rparr>]"
    by (simp add: startup_event1_def schedule_restart_def initial1_def n)
  show ?thesis using n z s saturday_night_eq by (simp add: saturday_night_def)
qed

section \<open>A scheduled fire in restart-1.py\<close>

lemma perform_restarts_jobs: "jobs (perform_restarts n now st) = jobs st"
  by (induction n arbitrary: st) (simp_all add: perform_restart_eq)


text \<open>A due date job noticed more than a second late is dropped without being run.\<close>

lemma late_date_job_dropped:
  assumes "jobs st = [j]" and "job_trigger j = DateTrigger d" and "scheduler_running st"
    and "dt_ge now (next_run_time j)" and "misfire_grace < dt_sub now (next_run_time j)"
  shows "scheduler_fire now st = (None, st\<lparr>jobs := []\<rparr>)"
  using assms by (simp add: scheduler_fire_def process_job_def dt_ge_def)

text \<open>
  An instance has at most one job: \<^verbatim>\<open>startup_event\<close> adds the only one, and no event of
  a running instance adds another.
\<close>

lemma reschedule_jobs_length:
  "reschedule_jobs tz now h js = (e, js') \<Longrightarrow> length js' = length js"
  by (induction js arbitrary: e js') (auto split: sum.splits prod.splits)

lemma process_jobs_length:
  "process_jobs tz now js = (e, n, js') \<Longrightarrow> length js' \<le> length js"
  by (induction js arbitrary: e n js') (fastforce split: sum.splits prod.splits option.splits)+

lemma step1_one_job:
  assumes "length (jobs st) \<le> 1"
  shows "length (jobs (snd (step1 fw e st))) \<le> 1"
proof (cases e)
  case (Pair now ev)
  show ?thesis
  proof (cases ev)
    case (Http req)
    have "length (jobs (snd (call_next1 fw now req st))) \<le> 1"
      using assms
      by (auto simp: call_next1_def root1_def status1_def manual_restart1_def
          configure_restart1_def Let_def dest!: reschedule_jobs_length
          split: option.splits prod.splits)
    then show ?thesis using assms Pair Http
      by (cases "call_next1 fw now req st") (auto simp: handle1_def check_restart_status_def)
  next
    case Fire
    have "length (jobs (snd (scheduler_fire now st))) \<le> length (jobs st)"
      by (auto simp: scheduler_fire_def perform_restarts_jobs Let_def
          dest!: process_jobs_length split: prod.splits option.splits)
    then show ?thesis using assms Pair Fire by simp
  next
    case RunTask
    then show ?thesis using assms Pair
      by (simp add: run_background1_def delayed_restart1_eq split: list.splits task.splits)
  next
    case Shutdown
    then show ?thesis using assms Pair by (simp add: shutdown_event1_def)
  qed
qed

lemma run1_one_job:
  "length (jobs st) \<le> 1 \<Longrightarrow> length (jobs (snd (run1 fw es st))) \<le> 1"
proof (induction es arbitrary: st)
  case Nil
  then show ?case by simp
next
  case (Cons e es)
  obtain r1 st1 where s: "step1 fw e st = (r1, st1)" by (cases "step1 fw e st")
  obtain rs st2 where t: "run1 fw es st1 = (rs, st2)" by (cases "run1 fw es st1")
  have "length (jobs st1) \<le> 1" using step1_one_job[OF Cons.prems, of fw e] s by simp
  then show ?case using Cons.IH[of st1] s t by simp
qed







section \<open>The interval schedule of restart-2.py\<close>






lemma running2_eq:
  "running2 = \<lparr>process_id2 = 4242, last_restart_time2 = 0, restart_interval_hours2 = 6,
      restart_thread = Some 0, should_restart2 = True, threads = [Sleeping 21600000000],
      background2 = [], sent2 = []\<rparr>"
  by (simp add: running2_def startup_event2_def start_thread_def initial2_def
      scheduled_restart_task_enter_def time_sleep_def module_globals2_def seconds_def)




section \<open>Reconfiguration of a running instance\<close>

text \<open>
  C7, at a failing input. \<^verbatim>\<open>restart-2.py\<close>, started at instant 0 with the default six
  hours, is reconfigured to ten hours one hour later. The old thread is inside its sleep:
  \<^verbatim>\<open>join(timeout=1.0)\<close> returns after one second without it, \<open>should_restart\<close> is set
  again, and a second thread is started. Two fire times are armed, and at the old one
  (six hours) the old thread sends SIGTERM. The same reconfiguration of \<^verbatim>\<open>restart-1.py\<close>
  reschedules its one job in place: one fire time, ten hours after noon.
\<close>

theorem reconfigure_keeps_old_timer:
  "fire_times2 (threads running2) = [21600000000] \<and>
   fst (configure_restart2 3600000000 10 running2) = ok (Configured 10 36000) \<and>
   fire_times2 (threads (snd (configure_restart2 3600000000 10 running2)))
     = [21600000000, 39601000000] \<and>
   sent2 (wake_thread 0 21600000000 (snd (configure_restart2 3600000000 10 running2)))
     = [(4242, SIGTERM)] \<and>
   map next_run_time (jobs (snd (configure_restart1 noon 10 running1)))
     = [\<lparr>day = 739000, hour = 22, minute = 0, second = 0, microsecond = 0,
         utcoffset = 3600000000\<rparr>]"
proof -
  have a: "map next_run_time (jobs (snd (configure_restart1 noon 10 running1)))
     = [\<lparr>day = 739000, hour = 22, minute = 0, second = 0, microsecond = 0,
         utcoffset = 3600000000\<rparr>]"
    by (simp add: configure_restart1_def running1_eq reschedule_def timedelta_hours_def
        dt_add_def tz_normalize_def datetime_now_def utc_us_def to_us_def of_us_def
        checked_def max_ordinal_def europe_london_2024_def noon_def)
  show ?thesis
    using a
    by (simp add: running2_eq configure_restart2_def is_alive_def thread_join_def
        seconds_def start_thread_def scheduled_restart_task_enter_def time_sleep_def
        module_globals2_def wake_thread_def scheduled_restart_task_resume_def
        os_kill2_def ok_def Let_def)
qed

section \<open>The termination sequence of the watchdog\<close>

lemma time_sleep3: "time_sleep module_globals3 5 = Inr ()"
  by (simp add: time_sleep_def module_globals3_def)

lemma kills_of_append: "kills_of (xs @ ys) = kills_of xs @ kills_of ys"
  by (induction xs rule: kills_of.induct) simp_all

lemma launches_append: "launches (xs @ ys) = launches xs + launches ys"
  by (induction xs rule: launches.induct) simp_all

lemma find_no_kills: "kills_of (fst (find_fastapi_pid procs)) = []"
  by (induction procs) (simp_all split: option.splits)

lemma find_no_launches: "launches (fst (find_fastapi_pid procs)) = 0"
  by (induction procs) (simp_all split: option.splits)

lemma start_no_kills: "kills_of (start_fastapi env) = []"
  by (simp add: start_fastapi_def)

lemma except_no_kills: "kills_of (restart_except e) = []"
  by (cases e) (simp_all add: restart_except_def)

text \<open>
  The signals of one \<^verbatim>\<open>restart_fastapi\<close>: none when no target is found; otherwise SIGTERM
  to the pid found, followed by SIGKILL to the same pid exactly when SIGTERM was
  delivered and the process table still has the pid after the grace.
\<close>

lemma restart_kills:
  "kills_of (restart_fastapi procs env) =
     (case snd (find_fastapi_pid procs) of
        None \<Rightarrow> []
      | Some p \<Rightarrow>
          if p = 0 then []
          else if sigterm_answer env = Delivered \<and> pid_exists (after_grace env)
               then [(p, SIGTERM), (p, SIGKILL)]
          else [(p, SIGTERM)])"
proof -
  obtain found r where f: "find_fastapi_pid procs = (found, r)"
    by (cases "find_fastapi_pid procs")
  have fs: "kills_of found = []" using find_no_kills[of procs] f by simp
  show ?thesis
    by (cases "sigterm_answer env"; cases "sigkill_answer env")
       (auto simp: restart_fastapi_def f fs kills_of_append start_no_kills
         except_no_kills os_kill3_def time_sleep3 split: option.splits)
qed

text \<open>
  Whenever a target is found and the first signal meets no such process, nothing is
  launched.
\<close>

lemma restart_launches_vanished:
  assumes "snd (find_fastapi_pid procs) = Some p" and "p \<noteq> 0"
    and "sigterm_answer env = NoSuchProcess"
  shows "launches (restart_fastapi procs env) = 0"
proof -
  obtain found where f: "find_fastapi_pid procs = (found, Some p)"
    using assms(1) by (cases "find_fastapi_pid procs") simp
  have fl: "launches found = 0" using find_no_launches[of procs] f by simp
  show ?thesis using assms(2,3)
    by (simp add: restart_fastapi_def f fl launches_append os_kill3_def restart_except_def)
qed

lemma find_uvicorn:
  "find_fastapi_pid [shell_proc, kernel_proc, uvicorn_proc]
     = ([Log INFO ''Found FastAPI/Uvicorn process: {pid}''], Some 4242)"
  by (simp add: shell_proc_def kernel_proc_def uvicorn_proc_def)

lemma find_nothing:
  "find_fastapi_pid [shell_proc, kernel_proc]
     = ([Log WARNING ''No FastAPI/Uvicorn process found''], None)"
  by (simp add: shell_proc_def kernel_proc_def)

text \<open>
  C6, at a failing input. The target is a child of the watchdog (launched by an earlier
  \<^verbatim>\<open>start_fastapi\<close>) and exits on SIGTERM well within the five seconds. Nobody has
  waited for it, so its pid is still in the process table, \<^verbatim>\<open>psutil.pid_exists\<close> answers
  true, and SIGKILL is sent to a target that has exited. A target that is gone from the
  table gets SIGTERM alone, one that is still running gets both.
\<close>

theorem exited_child_is_killed:
  "after_grace obedient_child = Zombie \<and>
   restart_fastapi [shell_proc, kernel_proc, uvicorn_proc] obedient_child
     = [Log INFO ''Found FastAPI/Uvicorn process: {pid}'',
        Log INFO ''Restarting FastAPI application with PID {pid}'',
        Kill 4242 SIGTERM,
        Log INFO ''SIGTERM signal sent successfully'',
        Sleep 5,
        PidExists 4242,
        Log WARNING ''Process {pid} still running after SIGTERM, sending SIGKILL'',
        Kill 4242 SIGKILL,
        Log INFO ''Starting FastAPI application'',
        Popen [''uvicorn'', ''main:app'', ''--host'', ''0.0.0.0'', ''--port'', ''8000''],
        Log INFO ''FastAPI application started''] \<and>
   kills_of (restart_fastapi [shell_proc, kernel_proc, uvicorn_proc] obedient)
     = [(4242, SIGTERM)] \<and>
   kills_of (restart_fastapi [shell_proc, kernel_proc, uvicorn_proc] stubborn)
     = [(4242, SIGTERM), (4242, SIGKILL)]"
  by (simp add: restart_kills restart_fastapi_def find_uvicorn obedient_child_def
      obedient_def stubborn_def pid_exists_def os_kill3_def time_sleep3 start_fastapi_def
      del: find_fastapi_pid.simps)

text \<open>
  C9, at a failing input. The watchdog finds the target, which exits before the signal:
  \<^verbatim>\<open>os.kill\<close> raises \<^verbatim>\<open>ProcessLookupError\<close>. The error is logged and does not leave
  \<^verbatim>\<open>restart_fastapi\<close>, but nothing is launched. When no target is found in the first place,
  and when the target obeys SIGTERM, one instance is launched.
\<close>

theorem vanished_target_not_relaunched:
  "restart_fastapi [shell_proc, kernel_proc, uvicorn_proc] vanished
     = [Log INFO ''Found FastAPI/Uvicorn process: {pid}'',
        Log INFO ''Restarting FastAPI application with PID {pid}'',
        Kill 4242 SIGTERM,
        Log ERROR ''Process with PID {pid} not found''] \<and>
   launches (restart_fastapi [shell_proc, kernel_proc, uvicorn_proc] vanished) = 0 \<and>
   launches (restart_fastapi [shell_proc, kernel_proc] vanished) = 1 \<and>
   launches (restart_fastapi [shell_proc, kernel_proc, uvicorn_proc] obedient) = 1"
  by (simp add: restart_fastapi_def find_uvicorn find_nothing vanished_def obedient_def
      pid_exists_def os_kill3_def restart_except_def start_fastapi_def time_sleep3
      del: find_fastapi_pid.simps)

end
